theory Spec2Isabelle
  imports Main "HOL-Library.Word" "HOL-Library.Multiset"
begin

section \<open>JavaScript values used by the application\<close>

text \<open>
  A JavaScript string is a sequence of UTF-16 code units. The constant texts of the
  program are ASCII and are written as HOL string literals; \<open>lit\<close> turns such a literal
  into the code units of the JavaScript string.
\<close>

type_synonym jsstring = "16 word list"

definition lit :: "string \<Rightarrow> jsstring" where
  "lit s = map (\<lambda>c. of_nat (of_char c)) s"

text \<open>
  \<open>String.prototype.trim\<close> removes the ECMAScript WhiteSpace and LineTerminator code
  points from both ends: TAB, LF, VT, FF, CR, SP, NBSP, U+1680, U+2000 to U+200A,
  U+2028, U+2029, U+202F, U+205F, U+3000 and U+FEFF.
\<close>

definition isWhiteSpace :: "16 word \<Rightarrow> bool" where
  "isWhiteSpace c =
     (c \<in> {0x9, 0xA, 0xB, 0xC, 0xD, 0x20, 0xA0, 0x1680, 0x2028, 0x2029, 0x202F, 0x205F,
            0x3000, 0xFEFF}
      \<or> (0x2000 \<le> c \<and> c \<le> 0x200A))"

definition trim :: "jsstring \<Rightarrow> jsstring" where
  "trim s = rev (dropWhile isWhiteSpace (rev (dropWhile isWhiteSpace s)))"

text \<open>
  What the program can throw or see rejected: \<open>new Error(msg)\<close> of the module itself, the
  runtime's \<open>TypeError\<close> and \<open>RangeError\<close>, the validation error of the document model,
  and a failure of the driver (connection, query or insert), which is opaque to the
  program.
\<close>

datatype js_error =
    JsError string
  | TypeError string
  | RangeError string
  | ValidationError string
  | DriverError string

text \<open>The JSON values the routes put into their responses.\<close>

datatype json =
    JNull
  | JNum int
  | JStr jsstring
  | JArr "json list"
  | JObj "(string \<times> json) list"

section \<open>The connection manager (\<open>utils/db.server\<close>)\<close>

text \<open>\<open>m.connection\<close>, the handle that a successful \<open>mongoose.connect\<close> gives.\<close>

datatype connection = Connection nat

text \<open>
  An ObjectId is identified by its 24 digit hexadecimal text, which is what its
  \<open>toString()\<close> gives.
\<close>

datatype objectid = ObjectId (toString: jsstring)

text \<open>
  A stored Task document as \<open>.lean()\<close> returns it: the fields of \<open>TaskSchema\<close>, the
  \<open>_id\<close> of the store, and in \<open>rest\<close> every other stored field (a document saved
  through the model carries the version key \<open>__v\<close>). \<open>createdAt\<close> is the time value of
  the Date, in milliseconds since the epoch.
\<close>

record task_doc =
  doc_id :: objectid
  title :: jsstring
  description :: jsstring
  createdAt :: int
  rest :: "(string \<times> json) list"

text \<open>The state of a promise of the connection.\<close>

datatype promise_state = Pending | Fulfilled connection | Rejected js_error

text \<open>
  The calls the program makes to the driver, in order. This trace is what "I/O" and
  "store interaction" mean below; \<open>console\<close> holds the diagnostic lines.
\<close>

datatype store_op = OpConnect jsstring | OpFind | OpInsert task_doc

datatype console_line = ConsoleLog string | ConsoleError string js_error

text \<open>
  \<open>cachedDb\<close> is the object \<open>{ conn, promise }\<close> kept in \<open>global.mongoose\<close>. A promise
  is named by its index in \<open>promises\<close>, the promises created so far. The \<open>world\<close> adds
  to the cache the module constant \<open>MONGODB_URI\<close>, the promises, the trace of driver
  calls, the console and the \<open>tasks\<close> collection of the store.
\<close>

record cache =
  conn :: "connection option"
  promise :: "nat option"

record world = cache +
  MONGODB_URI :: jsstring
  promises :: "promise_state list"
  io :: "store_op list"
  console :: "console_line list"
  collection :: "task_doc list"

text \<open>
  Module initialisation (lines 5 to 25): \<open>dotenv.config()\<close> adds the variables of the
  \<open>.env\<close> file that the process environment does not define, \<open>!MONGODB_URI\<close> holds for
  \<open>undefined\<close> and for the empty string, and the cache of \<open>global.mongoose\<close> is reused
  when there is one.
\<close>

definition module_init ::
  "(string \<rightharpoonup> jsstring) \<Rightarrow> (string \<rightharpoonup> jsstring) \<Rightarrow> cache option \<Rightarrow> js_error + jsstring \<times> cache"
where
  "module_init process_env dotenv_file global_mongoose =
     (case (dotenv_file ++ process_env) ''MONGODB_URI'' of
        None \<Rightarrow> Inl (JsError ''Please define the MONGODB_URI environment variable inside .env'')
      | Some uri \<Rightarrow>
          if uri = [] then
            Inl (JsError ''Please define the MONGODB_URI environment variable inside .env'')
          else
            Inr (uri, case global_mongoose of
                        None \<Rightarrow> \<lparr>conn = None, promise = None\<rparr>
                      | Some cachedDb \<Rightarrow> cachedDb))"

text \<open>
  \<open>connectToDatabase\<close> runs to its end without suspending. Being \<open>async\<close>, it gives its
  caller a promise: one already resolved with the cached handle (\<open>Resolved\<close>), or one that
  follows the cached promise and settles as it does (\<open>Awaiting\<close>).
\<close>

datatype acquired = Resolved connection | Awaiting nat

definition connectToDatabase :: "world \<Rightarrow> acquired \<times> world" where
  "connectToDatabase s =
     (case conn s of
        Some c \<Rightarrow>
          (Resolved c,
           s\<lparr>console := console s @ [ConsoleLog ''Using existing database connection'']\<rparr>)
      | None \<Rightarrow>
          (case promise s of
             None \<Rightarrow>
               (let p = length (promises s) in
                (Awaiting p,
                 s\<lparr>promise := Some p,
                   promises := promises s @ [Pending],
                   io := io s @ [OpConnect (MONGODB_URI s)]\<rparr>))
           | Some p \<Rightarrow> (Awaiting p, s)))"

text \<open>
  The attempt \<open>p\<close> settles: \<open>mongoose.connect\<close> resolves and the \<open>then\<close> callback stores
  the handle, or it rejects and the \<open>catch\<close> callback clears \<open>cachedDb.promise\<close> and
  throws the error again. A promise settles once.
\<close>

definition settle :: "nat \<Rightarrow> js_error + connection \<Rightarrow> world \<Rightarrow> world" where
  "settle p outcome s =
     (if p < length (promises s) \<and> promises s ! p = Pending then
        (case outcome of
           Inr c \<Rightarrow>
             s\<lparr>conn := Some c,
               promises := (promises s)[p := Fulfilled c],
               console := console s @ [ConsoleLog ''New database connection established'']\<rparr>
         | Inl e \<Rightarrow>
             s\<lparr>promise := None,
               promises := (promises s)[p := Rejected e],
               console := console s @ [ConsoleError ''Database connection failed:'' e]\<rparr>)
      else s)"

definition settled :: "js_error + connection \<Rightarrow> promise_state" where
  "settled outcome = (case outcome of Inl e \<Rightarrow> Rejected e | Inr c \<Rightarrow> Fulfilled c)"

text \<open>What a caller holding the result \<open>r\<close> of \<open>connectToDatabase\<close> sees in state \<open>s\<close>.\<close>

definition awaited :: "world \<Rightarrow> acquired \<Rightarrow> promise_state" where
  "awaited s r =
     (case r of
        Resolved c \<Rightarrow> Fulfilled c
      | Awaiting p \<Rightarrow> if p < length (promises s) then promises s ! p else Pending)"

text \<open>\<open>n\<close> callers one after the other, none of them resumed yet.\<close>

fun callers :: "nat \<Rightarrow> world \<Rightarrow> acquired list \<times> world" where
  "callers 0 s = ([], s)"
| "callers (Suc n) s =
     (case connectToDatabase s of
        (r, s1) \<Rightarrow> (case callers n s1 of (rs, s2) \<Rightarrow> (r # rs, s2)))"

text \<open>An attempt \<open>p\<close> is in flight: it is the cached promise, pending, and no handle is cached.\<close>

definition in_flight :: "world \<Rightarrow> nat \<Rightarrow> bool" where
  "in_flight s p \<longleftrightarrow>
     conn s = None \<and> promise s = Some p \<and> p < length (promises s) \<and> promises s ! p = Pending"

definition uninitialized :: "world \<Rightarrow> bool" where
  "uninitialized s \<longleftrightarrow> conn s = None \<and> promise s = None"

text \<open>
  The states of the manager: connected (a handle is cached), uninitialised, or connecting
  (the cached promise is pending). The program starts uninitialised and every step keeps
  the state one of these.
\<close>

definition consistent :: "world \<Rightarrow> bool" where
  "consistent s =
     (case conn s of
        Some c \<Rightarrow> True
      | None \<Rightarrow>
          (case promise s of
             None \<Rightarrow> True
           | Some p \<Rightarrow> p < length (promises s) \<and> promises s ! p = Pending))"

section \<open>The runtime and the collaborators of the routes\<close>

text \<open>
  \<open>Date.prototype.toISOString\<close>: a \<open>RangeError\<close> for a time value outside the range of
  a Date, else the text \<open>YYYY-MM-DDTHH:mm:ss.sssZ\<close> in UTC, the year written with a sign
  and six digits when it is not between 0 and 9999. \<open>civil_from_days\<close> turns a day
  number (days since 1970-01-01) into year, month and day of the Gregorian calendar.
\<close>

fun digits :: "nat \<Rightarrow> int \<Rightarrow> jsstring" where
  "digits 0 n = []"
| "digits (Suc w) n = digits w (n div 10) @ [of_nat (nat (48 + n mod 10))]"

definition civil_from_days :: "int \<Rightarrow> int \<times> int \<times> int" where
  "civil_from_days z =
     (let z1 = z + 719468;
          era = z1 div 146097;
          doe = z1 mod 146097;
          yoe = (doe - doe div 1460 + doe div 36524 - doe div 146096) div 365;
          doy = doe - (365 * yoe + yoe div 4 - yoe div 100);
          mp = (5 * doy + 2) div 153;
          d = doy - (153 * mp + 2) div 5 + 1;
          m = (if mp < 10 then mp + 3 else mp - 9);
          y = yoe + era * 400 + (if m \<le> 2 then 1 else 0)
      in (y, m, d))"

definition toISOString :: "int \<Rightarrow> js_error + jsstring" where
  "toISOString t =
     (if \<bar>t\<bar> > 8640000000000000 then Inl (RangeError ''Invalid time value'')
      else
        (case civil_from_days (t div 86400000) of
           (y, m, d) \<Rightarrow>
             (let ms = t mod 86400000;
                  year = (if 0 \<le> y \<and> y \<le> 9999 then digits 4 y
                          else (if y < 0 then lit ''-'' else lit ''+'') @ digits 6 \<bar>y\<bar>)
              in Inr (year @ lit ''-'' @ digits 2 m @ lit ''-'' @ digits 2 d
                      @ lit ''T'' @ digits 2 (ms div 3600000)
                      @ lit '':'' @ digits 2 (ms div 60000 mod 60)
                      @ lit '':'' @ digits 2 (ms div 1000 mod 60)
                      @ lit ''.'' @ digits 3 (ms mod 1000) @ lit ''Z''))))"

text \<open>
  A value of \<open>FormData\<close> is a string or a File (here its name); \<open>formData.get\<close> gives the
  first value of the name, or \<open>null\<close> (\<open>None\<close>).
\<close>

datatype form_value = FString jsstring | FFile jsstring

type_synonym form_data = "(string \<times> form_value) list"

definition formData_get :: "form_data \<Rightarrow> string \<Rightarrow> form_value option" where
  "formData_get fd name = map_of fd name"

text \<open>\<open>request.formData()\<close> rejects when the body is not form data.\<close>

record request =
  formData :: "js_error + form_data"

text \<open>\<open>!v\<close>, \<open>typeof v === 'string'\<close> and \<open>v.trim()\<close> on such a value.\<close>

definition falsy :: "form_value option \<Rightarrow> bool" where
  "falsy v = (case v of None \<Rightarrow> True | Some (FString t) \<Rightarrow> t = [] | Some (FFile f) \<Rightarrow> False)"

definition typeof_string :: "form_value option \<Rightarrow> bool" where
  "typeof_string v = (case v of Some (FString t) \<Rightarrow> True | _ \<Rightarrow> False)"

definition call_trim :: "form_value option \<Rightarrow> js_error + jsstring" where
  "call_trim v =
     (case v of
        Some (FString t) \<Rightarrow> Inr (trim t)
      | Some (FFile f) \<Rightarrow> Inl (TypeError ''trim is not a function'')
      | None \<Rightarrow> Inl (TypeError ''Cannot read properties of null''))"

text \<open>
  The responses of the web framework: \<open>json(data, { status })\<close> and \<open>redirect(url)\<close>,
  which answers 302 with the location.
\<close>

datatype response = Json json nat | Redirect string nat

definition redirect :: "string \<Rightarrow> response" where
  "redirect url = Redirect url 302"

text \<open>
  What the outside decides during one request: how a pending connection attempt settles,
  the clock, the ObjectId of a new document, and whether the store fails the query or the
  insert.
\<close>

record env =
  connect_outcome :: "js_error + connection"
  now :: int
  new_id :: objectid
  find_fault :: "js_error option"
  insert_fault :: "js_error option"

text \<open>
  \<open>await connectToDatabase()\<close> in a request that runs alone: the request is suspended
  while the attempt is pending, the attempt settles as the outside decides, and the
  request resumes with the handle or with the error thrown.
\<close>

definition await_connectToDatabase :: "env \<Rightarrow> world \<Rightarrow> (js_error + connection) \<times> world" where
  "await_connectToDatabase env s =
     (case connectToDatabase s of
        (Resolved c, s1) \<Rightarrow> (Inr c, s1)
      | (Awaiting p, s1) \<Rightarrow>
          (case awaited s1 (Awaiting p) of
             Fulfilled c \<Rightarrow> (Inr c, s1)
           | Rejected e \<Rightarrow> (Inl e, s1)
           | Pending \<Rightarrow> (connect_outcome env, settle p (connect_outcome env) s1)))"

section \<open>The Task model (\<open>models/task.server\<close>)\<close>

text \<open>
  \<open>new Task({ title, description })\<close> applies \<open>TaskSchema\<close>: \<open>title\<close> and
  \<open>description\<close> are trimmed, an absent \<open>description\<close> becomes the empty string,
  \<open>createdAt\<close> becomes \<open>Date.now()\<close>, and the document gets a new \<open>_id\<close>.
\<close>

record task_instance =
  inst_id :: objectid
  inst_title :: "jsstring option"
  inst_description :: jsstring
  inst_createdAt :: int

definition new_Task :: "env \<Rightarrow> jsstring option \<Rightarrow> jsstring option \<Rightarrow> task_instance" where
  "new_Task env title_arg description_arg =
     \<lparr>inst_id = new_id env,
      inst_title = map_option trim title_arg,
      inst_description = (case description_arg of None \<Rightarrow> [] | Some d \<Rightarrow> trim d),
      inst_createdAt = now env\<rparr>"

text \<open>
  \<open>save()\<close> validates first (\<open>required: true\<close> rejects an absent and an empty title) and
  then inserts the document, with the version key, at the end of the collection, unless
  the store fails.
\<close>

definition validate_task :: "task_instance \<Rightarrow> js_error + jsstring" where
  "validate_task inst =
     (case inst_title inst of
        None \<Rightarrow> Inl (ValidationError ''Path `title` is required.'')
      | Some t \<Rightarrow> if t = [] then Inl (ValidationError ''Path `title` is required.'') else Inr t)"

definition save :: "env \<Rightarrow> task_instance \<Rightarrow> world \<Rightarrow> (js_error + unit) \<times> world" where
  "save env inst s =
     (case validate_task inst of
        Inl e \<Rightarrow> (Inl e, s)
      | Inr t \<Rightarrow>
          (let doc = \<lparr>doc_id = inst_id inst, title = t, description = inst_description inst,
                      createdAt = inst_createdAt inst, rest = [(''__v'', JNum 0)]\<rparr>;
               s1 = s\<lparr>io := io s @ [OpInsert doc]\<rparr>
           in case insert_fault env of
                Some e \<Rightarrow> (Inl e, s1)
              | None \<Rightarrow> (Inr (), s1\<lparr>collection := collection s @ [doc]\<rparr>)))"

text \<open>
  \<open>Task.find({}).sort({ createdAt: -1 }).lean()\<close>: every document of the collection,
  by \<open>createdAt\<close> descending. The order of documents with equal \<open>createdAt\<close> is the
  store's choice; the model keeps them in the order of the collection.
\<close>

definition find_sort_lean :: "env \<Rightarrow> world \<Rightarrow> (js_error + task_doc list) \<times> world" where
  "find_sort_lean env s =
     (let s1 = s\<lparr>io := io s @ [OpFind]\<rparr>
      in case find_fault env of
           Some e \<Rightarrow> (Inl e, s1)
         | None \<Rightarrow> (Inr (sort_key (\<lambda>d. - createdAt d) (collection s)), s1))"

section \<open>The routes (\<open>routes/_index\<close>)\<close>

text \<open>
  The callback of \<open>tasks.map\<close>: the fields of the document, with \<open>_id\<close> and
  \<open>createdAt\<close> replaced by their texts. \<open>map_throwing\<close> is \<open>Array.prototype.map\<close> with
  a callback that may throw.
\<close>

definition serializableTask :: "task_doc \<Rightarrow> js_error + json" where
  "serializableTask task =
     (case toISOString (createdAt task) of
        Inl e \<Rightarrow> Inl e
      | Inr iso_text \<Rightarrow>
          Inr (JObj ([(''_id'', JStr (toString (doc_id task))),
                      (''title'', JStr (title task)),
                      (''description'', JStr (description task)),
                      (''createdAt'', JStr iso_text)] @ rest task)))"

fun map_throwing :: "('a \<Rightarrow> js_error + 'b) \<Rightarrow> 'a list \<Rightarrow> js_error + 'b list" where
  "map_throwing f [] = Inr []"
| "map_throwing f (x # xs) =
     (case f x of
        Inl e \<Rightarrow> Inl e
      | Inr y \<Rightarrow> (case map_throwing f xs of Inl e \<Rightarrow> Inl e | Inr ys \<Rightarrow> Inr (y # ys)))"

text \<open>The \<open>catch\<close> block of \<open>loader\<close>; \<open>Inl\<close> is a thrown response, \<open>Inr\<close> a returned one.\<close>

definition loader_catch :: "js_error \<Rightarrow> world \<Rightarrow> (response + response) \<times> world" where
  "loader_catch e s =
     (Inl (Json (JObj [(''message'', JStr (lit ''Failed to load tasks.''))]) 500),
      s\<lparr>console := console s @ [ConsoleError ''Failed to load tasks:'' e]\<rparr>)"

definition loader :: "env \<Rightarrow> world \<Rightarrow> (response + response) \<times> world" where
  "loader env s =
     (case await_connectToDatabase env s of
        (Inl e, s1) \<Rightarrow> loader_catch e s1
      | (Inr c, s1) \<Rightarrow>
          (case find_sort_lean env s1 of
             (Inl e, s2) \<Rightarrow> loader_catch e s2
           | (Inr tasks, s2) \<Rightarrow>
               (case map_throwing serializableTask tasks of
                  Inl e \<Rightarrow> loader_catch e s2
                | Inr serializableTasks \<Rightarrow>
                    (Inr (Json (JObj [(''tasks'', JArr serializableTasks)]) 200), s2))))"

text \<open>The \<open>catch\<close> block of \<open>action\<close>, and the test of the title at line 120.\<close>

definition action_catch :: "js_error \<Rightarrow> world \<Rightarrow> response \<times> world" where
  "action_catch e s =
     (Json (JObj [(''message'', JStr (lit ''Failed to add task. Please try again.''))]) 500,
      s\<lparr>console := console s @ [ConsoleError ''Failed to add task:'' e]\<rparr>)"

definition title_rejected :: "form_value option \<Rightarrow> bool" where
  "title_rejected title_v \<longleftrightarrow>
     falsy title_v \<or> \<not> typeof_string title_v
     \<or> (case call_trim title_v of Inl e \<Rightarrow> False | Inr t \<Rightarrow> length t = 0)"

definition action :: "env \<Rightarrow> request \<Rightarrow> world \<Rightarrow> response \<times> world" where
  "action env req s =
     (case await_connectToDatabase env s of
        (Inl e, s1) \<Rightarrow> action_catch e s1
      | (Inr c, s1) \<Rightarrow>
          (case formData req of
             Inl e \<Rightarrow> action_catch e s1
           | Inr fd \<Rightarrow>
               (let title_v = formData_get fd ''title'';
                    description_v = formData_get fd ''description''
                in if title_rejected title_v then
                     (Json (JObj [(''errors'',
                                   JObj [(''title'', JStr (lit ''Title is required.''))])]) 400,
                      s1)
                   else
                     (case call_trim title_v of
                        Inl e \<Rightarrow> action_catch e s1
                      | Inr t \<Rightarrow>
                          (case (if falsy description_v then Inr [] else call_trim description_v) of
                             Inl e \<Rightarrow> action_catch e s1
                           | Inr d \<Rightarrow>
                               (case save env (new_Task env (Some t) (Some d)) s1 of
                                  (Inl e, s2) \<Rightarrow> action_catch e s2
                                | (Inr u, s2) \<Rightarrow> (redirect ''/'', s2)))))))"

section \<open>The vocabulary of the specification\<close>

text \<open>
  A title is invalid when it is missing, not textual, or empty after trimming. An input
  is valid when its title is not invalid and its description is absent or textual.
\<close>

definition title_invalid :: "form_value option \<Rightarrow> bool" where
  "title_invalid v =
     (case v of None \<Rightarrow> True | Some (FFile f) \<Rightarrow> True | Some (FString t) \<Rightarrow> trim t = [])"

definition description_textual :: "form_value option \<Rightarrow> bool" where
  "description_textual v = (case v of Some (FFile f) \<Rightarrow> False | _ \<Rightarrow> True)"

definition valid_input :: "form_data \<Rightarrow> bool" where
  "valid_input fd \<longleftrightarrow>
     \<not> title_invalid (formData_get fd ''title'')
     \<and> description_textual (formData_get fd ''description'')"

text \<open>The text of a field of the form, trimmed; the empty string when the field is absent.\<close>

definition trimmed :: "form_value option \<Rightarrow> jsstring" where
  "trimmed v = (case v of Some (FString t) \<Rightarrow> trim t | _ \<Rightarrow> [])"

text \<open>The document that a valid input creates.\<close>

definition created_doc :: "env \<Rightarrow> form_data \<Rightarrow> task_doc" where
  "created_doc env fd =
     \<lparr>doc_id = new_id env,
      title = trimmed (formData_get fd ''title''),
      description = trimmed (formData_get fd ''description''),
      createdAt = now env,
      rest = [(''__v'', JNum 0)]\<rparr>"

text \<open>A time value that a Date can hold.\<close>

definition valid_time :: "int \<Rightarrow> bool" where
  "valid_time t \<longleftrightarrow> \<bar>t\<bar> \<le> 8640000000000000"

text \<open>The two error responses and the response of a successful read.\<close>

definition validation_response :: response where
  "validation_response =
     Json (JObj [(''errors'', JObj [(''title'', JStr (lit ''Title is required.''))])]) 400"

definition add_failed_response :: response where
  "add_failed_response =
     Json (JObj [(''message'', JStr (lit ''Failed to add task. Please try again.''))]) 500"

definition load_failed_response :: response where
  "load_failed_response = Json (JObj [(''message'', JStr (lit ''Failed to load tasks.''))]) 500"

definition tasks_response :: "json list \<Rightarrow> response" where
  "tasks_response ts = Json (JObj [(''tasks'', JArr ts)]) 200"

text \<open>Newest first: of two records, the one listed first is not older.\<close>

definition newest_first :: "task_doc list \<Rightarrow> bool" where
  "newest_first docs \<longleftrightarrow> sorted_wrt (\<lambda>a b. createdAt b \<le> createdAt a) docs"

section \<open>Example inputs\<close>

definition world0 :: world where
  "world0 =
     \<lparr>conn = None, promise = None, MONGODB_URI = lit ''mongodb://localhost:27017/tasks'',
      promises = [], io = [], console = [], collection = []\<rparr>"

definition env_up :: env where
  "env_up =
     \<lparr>connect_outcome = Inr (Connection 1), now = 1700000000000,
      new_id = ObjectId (lit ''6553f1000000000000000001''),
      find_fault = None, insert_fault = None\<rparr>"

definition env_down :: env where
  "env_down =
     \<lparr>connect_outcome = Inl (DriverError ''ECONNREFUSED''), now = 1700000000000,
      new_id = ObjectId (lit ''6553f1000000000000000001''),
      find_fault = None, insert_fault = None\<rparr>"

definition env_later :: env where
  "env_later =
     \<lparr>connect_outcome = Inr (Connection 1), now = 1700000001000,
      new_id = ObjectId (lit ''6553f1010000000000000002''),
      find_fault = None, insert_fault = None\<rparr>"

definition buy_milk :: request where
  "buy_milk = \<lparr>formData = Inr [(''title'', FString (lit '' Buy milk '')),
                                (''description'', FString [])]\<rparr>"

definition blank_title :: request where
  "blank_title = \<lparr>formData = Inr [(''title'', FString (lit ''  ''))]\<rparr>"

definition with_upload :: request where
  "with_upload = \<lparr>formData = Inr [(''title'', FString (lit ''Report'')),
                                   (''description'', FFile (lit ''notes.txt''))]\<rparr>"

text \<open>
  A connected world whose collection holds two tasks, the older one stored first, and
  the two records that the read path makes of them.
\<close>

definition task_a :: task_doc where
  "task_a =
     \<lparr>doc_id = ObjectId (lit ''6553f1000000000000000001''), title = lit ''Buy milk'',
      description = [], createdAt = 1700000000000, rest = [(''__v'', JNum 0)]\<rparr>"

definition task_b :: task_doc where
  "task_b =
     \<lparr>doc_id = ObjectId (lit ''6553f1010000000000000002''), title = lit ''Call Bob'',
      description = lit ''before noon'', createdAt = 1700000001000,
      rest = [(''__v'', JNum 0)]\<rparr>"

definition world_two :: world where
  "world_two = world0\<lparr>conn := Some (Connection 1), collection := [task_a, task_b]\<rparr>"

definition record_a :: json where
  "record_a =
     JObj [(''_id'', JStr (lit ''6553f1000000000000000001'')),
           (''title'', JStr (lit ''Buy milk'')),
           (''description'', JStr []),
           (''createdAt'', JStr (lit ''2023-11-14T22:13:20.000Z'')),
           (''__v'', JNum 0)]"

definition record_b :: json where
  "record_b =
     JObj [(''_id'', JStr (lit ''6553f1010000000000000002'')),
           (''title'', JStr (lit ''Call Bob'')),
           (''description'', JStr (lit ''before noon'')),
           (''createdAt'', JStr (lit ''2023-11-14T22:13:21.000Z'')),
           (''__v'', JNum 0)]"

text \<open>The names of the fields of a JSON object, in order.\<close>

definition object_keys :: "json \<Rightarrow> string list" where
  "object_keys j = (case j of JObj kvs \<Rightarrow> map fst kvs | _ \<Rightarrow> [])"

section \<open>Properties of the connection manager\<close>

lemma connect_in_flight: "in_flight s p \<Longrightarrow> connectToDatabase s = (Awaiting p, s)"
  by (simp add: in_flight_def connectToDatabase_def)

lemma callers_in_flight: "in_flight s p \<Longrightarrow> callers n s = (replicate n (Awaiting p), s)"
  by (induction n) (simp_all add: connect_in_flight)

lemma connect_uninitialized:
  "uninitialized s \<Longrightarrow>
     connectToDatabase s =
       (Awaiting (length (promises s)),
        s\<lparr>promise := Some (length (promises s)),
          promises := promises s @ [Pending],
          io := io s @ [OpConnect (MONGODB_URI s)]\<rparr>)"
  by (simp add: uninitialized_def connectToDatabase_def Let_def)

lemma in_flight_after_start:
  "uninitialized s \<Longrightarrow> in_flight (snd (connectToDatabase s)) (length (promises s))"
  by (simp add: connect_uninitialized) (simp add: in_flight_def uninitialized_def)

lemma awaited_settle:
  "in_flight s p \<Longrightarrow> awaited (settle p outcome s) (Awaiting p) = settled outcome"
  by (cases outcome) (simp_all add: in_flight_def awaited_def settle_def settled_def)

lemma settle_rejected:
  "in_flight s p \<Longrightarrow>
     settle p (Inl e) s =
       s\<lparr>promise := None,
         promises := (promises s)[p := Rejected e],
         console := console s @ [ConsoleError ''Database connection failed:'' e]\<rparr>"
  by (simp add: in_flight_def settle_def)

lemma connect_cached:
  "conn s = Some c \<Longrightarrow>
     connectToDatabase s =
       (Resolved c,
        s\<lparr>console := console s @ [ConsoleLog ''Using existing database connection'']\<rparr>)"
  by (simp add: connectToDatabase_def)

lemma callers_cached:
  "conn s = Some c \<Longrightarrow>
     fst (callers n s) = replicate n (Resolved c)
     \<and> conn (snd (callers n s)) = Some c
     \<and> promise (snd (callers n s)) = promise s
     \<and> promises (snd (callers n s)) = promises s
     \<and> io (snd (callers n s)) = io s
     \<and> collection (snd (callers n s)) = collection s"
proof (induction n arbitrary: s)
  case 0
  then show ?case by simp
next
  case (Suc n)
  let ?s1 = "s\<lparr>console := console s @ [ConsoleLog ''Using existing database connection'']\<rparr>"
  have "conn ?s1 = Some c" using Suc.prems by simp
  from Suc.IH [OF this] show ?case
    using Suc.prems by (simp add: connect_cached case_prod_beta)
qed

text \<open>
  C1. While an attempt is in flight and no handle is cached, every call returns that
  pending attempt and changes nothing, so no second attempt is started; and from the
  uninitialised state any number of callers that arrive before the attempt settles
  cause exactly one call of the driver's connect, all hold the same attempt, and all see
  the same handle or the same failure once it settles.
\<close>

theorem single_flight:
  "(in_flight s p \<longrightarrow>
      connectToDatabase s = (Awaiting p, s)
      \<and> callers n s = (replicate n (Awaiting p), s)
      \<and> (\<forall>r \<in> set (fst (callers n s)). awaited (settle p outcome s) r = settled outcome))
   \<and> (uninitialized s \<longrightarrow>
      fst (callers (Suc n) s) = replicate (Suc n) (Awaiting (length (promises s)))
      \<and> io (snd (callers (Suc n) s)) = io s @ [OpConnect (MONGODB_URI s)]
      \<and> in_flight (snd (callers (Suc n) s)) (length (promises s))
      \<and> (\<forall>r \<in> set (fst (callers (Suc n) s)).
            awaited (settle (length (promises s)) outcome (snd (callers (Suc n) s))) r
              = settled outcome))"
proof (intro conjI impI)
  assume f: "in_flight s p"
  show "connectToDatabase s = (Awaiting p, s)" by (rule connect_in_flight [OF f])
  show "callers n s = (replicate n (Awaiting p), s)" by (rule callers_in_flight [OF f])
  show "\<forall>r \<in> set (fst (callers n s)). awaited (settle p outcome s) r = settled outcome"
    by (simp add: callers_in_flight [OF f] awaited_settle [OF f])
next
  assume u: "uninitialized s"
  let ?p = "length (promises s)"
  let ?s1 = "snd (connectToDatabase s)"
  have f: "in_flight ?s1 ?p" by (rule in_flight_after_start [OF u])
  have c: "callers (Suc n) s = (replicate (Suc n) (Awaiting ?p), ?s1)"
    by (simp add: connect_uninitialized [OF u] callers_in_flight [OF f [simplified connect_uninitialized [OF u] snd_conv]])
  show "fst (callers (Suc n) s) = replicate (Suc n) (Awaiting ?p)" by (simp only: c fst_conv)
  show "io (snd (callers (Suc n) s)) = io s @ [OpConnect (MONGODB_URI s)]"
    by (simp only: c snd_conv) (simp add: connect_uninitialized [OF u])
  show "in_flight (snd (callers (Suc n) s)) ?p" by (simp only: c snd_conv f)
  show "\<forall>r \<in> set (fst (callers (Suc n) s)).
          awaited (settle ?p outcome (snd (callers (Suc n) s))) r = settled outcome"
    by (simp only: c fst_conv snd_conv) (simp add: awaited_settle [OF f])
qed

theorem single_flight_witness:
  "in_flight (world0\<lparr>promise := Some 0, promises := [Pending]\<rparr>) 0
   \<and> callers 3 (world0\<lparr>promise := Some 0, promises := [Pending]\<rparr>)
       = (replicate 3 (Awaiting 0), world0\<lparr>promise := Some 0, promises := [Pending]\<rparr>)
   \<and> uninitialized world0
   \<and> fst (callers (Suc 2) world0) = replicate (Suc 2) (Awaiting 0)
   \<and> io (snd (callers (Suc 2) world0)) = io world0 @ [OpConnect (MONGODB_URI world0)]
   \<and> awaited (settle 0 (Inr (Connection 1)) (snd (callers (Suc 2) world0))) (Awaiting 0)
       = settled (Inr (Connection 1))"
proof -
  have f: "in_flight (world0\<lparr>promise := Some 0, promises := [Pending]\<rparr>) 0"
    by (simp add: in_flight_def world0_def)
  have u: "uninitialized world0"
    by (simp add: uninitialized_def world0_def)
  have l: "length (promises world0) = 0" by (simp add: world0_def)
  have a: "callers 3 (world0\<lparr>promise := Some 0, promises := [Pending]\<rparr>)
       = (replicate 3 (Awaiting 0), world0\<lparr>promise := Some 0, promises := [Pending]\<rparr>)"
    using f single_flight [of "world0\<lparr>promise := Some 0, promises := [Pending]\<rparr>" 0 3]
    by blast
  have b: "fst (callers (Suc 2) world0) = replicate (Suc 2) (Awaiting 0)
     \<and> io (snd (callers (Suc 2) world0)) = io world0 @ [OpConnect (MONGODB_URI world0)]
     \<and> (\<forall>r \<in> set (fst (callers (Suc 2) world0)).
         awaited (settle 0 (Inr (Connection 1)) (snd (callers (Suc 2) world0))) r
           = settled (Inr (Connection 1)))"
    using u single_flight [of world0 0 2 "Inr (Connection 1)"] unfolding l
    by blast
  have m: "Awaiting 0 \<in> set (fst (callers (Suc 2) world0))"
    unfolding b [THEN conjunct1] by simp
  show ?thesis using f u a b m by blast
qed

text \<open>
  C2. When the attempt in flight fails, the cached promise is cleared and no handle is
  cached, every caller that holds the attempt sees the failure, and the next call starts
  a new attempt (one more call of the driver's connect, a new pending promise) instead of
  returning the failed one.
\<close>

theorem failed_attempt_retried:
  assumes "in_flight s p"
  shows "promise (settle p (Inl e) s) = None
     \<and> conn (settle p (Inl e) s) = None
     \<and> (\<forall>r \<in> set (fst (callers n s)). awaited (settle p (Inl e) s) r = Rejected e)
     \<and> fst (connectToDatabase (settle p (Inl e) s)) = Awaiting (length (promises s))
     \<and> length (promises s) \<noteq> p
     \<and> in_flight (snd (connectToDatabase (settle p (Inl e) s))) (length (promises s))
     \<and> io (snd (connectToDatabase (settle p (Inl e) s))) = io s @ [OpConnect (MONGODB_URI s)]"
proof -
  let ?s1 = "settle p (Inl e) s"
  have u: "uninitialized ?s1"
    using assms by (simp add: settle_rejected) (simp add: in_flight_def uninitialized_def)
  have len: "length (promises ?s1) = length (promises s)"
    using assms by (simp add: settle_rejected)
  have "\<forall>r \<in> set (fst (callers n s)). awaited ?s1 r = Rejected e"
    using awaited_settle [OF assms, of "Inl e"]
    by (simp add: callers_in_flight [OF assms] settled_def)
  moreover have "fst (connectToDatabase ?s1) = Awaiting (length (promises s))"
    by (simp add: connect_uninitialized [OF u] len)
  moreover have "length (promises s) \<noteq> p"
    using assms by (simp add: in_flight_def)
  moreover have "in_flight (snd (connectToDatabase ?s1)) (length (promises s))"
    using in_flight_after_start [OF u] by (simp add: len)
  moreover have "io (snd (connectToDatabase ?s1)) = io s @ [OpConnect (MONGODB_URI s)]"
    using assms by (simp add: connect_uninitialized [OF u]) (simp add: settle_rejected)
  ultimately show ?thesis
    using u by (simp add: uninitialized_def)
qed

theorem failed_attempt_retried_witness:
  "in_flight (world0\<lparr>promise := Some 0, promises := [Pending]\<rparr>) 0
   \<and> promise (settle 0 (Inl (DriverError ''ECONNREFUSED''))
               (world0\<lparr>promise := Some 0, promises := [Pending]\<rparr>)) = None
   \<and> fst (connectToDatabase (settle 0 (Inl (DriverError ''ECONNREFUSED''))
               (world0\<lparr>promise := Some 0, promises := [Pending]\<rparr>))) = Awaiting 1"
proof -
  have f: "in_flight (world0\<lparr>promise := Some 0, promises := [Pending]\<rparr>) 0"
    by (simp add: in_flight_def world0_def)
  show ?thesis
    using f failed_attempt_retried [OF f, of "DriverError ''ECONNREFUSED''" 1]
    by simp
qed

text \<open>
  C3. When a handle is cached, a call returns that handle at once, resolved and not
  awaiting anything, makes no call to the driver, and leaves the cache, the promises and
  the collection as they were; only a diagnostic line is written to the console. Any
  number of calls all return the same handle.
\<close>

theorem cached_handle_reused:
  assumes "conn s = Some c"
  shows "connectToDatabase s =
           (Resolved c,
            s\<lparr>console := console s @ [ConsoleLog ''Using existing database connection'']\<rparr>)
     \<and> fst (callers n s) = replicate n (Resolved c)
     \<and> conn (snd (callers n s)) = Some c
     \<and> promise (snd (callers n s)) = promise s
     \<and> promises (snd (callers n s)) = promises s
     \<and> io (snd (callers n s)) = io s
     \<and> collection (snd (callers n s)) = collection s"
  using connect_cached [OF assms] callers_cached [OF assms, of n] by simp

theorem cached_handle_reused_witness:
  "conn (world0\<lparr>conn := Some (Connection 1)\<rparr>) = Some (Connection 1)
   \<and> fst (callers 2 (world0\<lparr>conn := Some (Connection 1)\<rparr>)) = replicate 2 (Resolved (Connection 1))
   \<and> io (snd (callers 2 (world0\<lparr>conn := Some (Connection 1)\<rparr>))) = []"
proof -
  have c: "conn (world0\<lparr>conn := Some (Connection 1)\<rparr>) = Some (Connection 1)" by simp
  have i: "io (world0\<lparr>conn := Some (Connection 1)\<rparr>) = []" by (simp add: world0_def)
  show ?thesis
    using c cached_handle_reused [OF c, of 2] unfolding i by blast
qed

text \<open>
  C9. When neither the process environment nor the \<open>.env\<close> file defines
  \<open>MONGODB_URI\<close>, the initialisation of the module throws: it yields no connection
  string and no cache, so no connection attempt can be made later.
\<close>

theorem missing_uri_fails_at_startup:
  assumes "process_env ''MONGODB_URI'' = None" and "dotenv_file ''MONGODB_URI'' = None"
  shows "module_init process_env dotenv_file global_mongoose =
           Inl (JsError ''Please define the MONGODB_URI environment variable inside .env'')"
  using assms by (simp add: module_init_def map_add_def)

theorem missing_uri_fails_at_startup_witness:
  "(Map.empty :: string \<rightharpoonup> jsstring) ''MONGODB_URI'' = None
   \<and> module_init Map.empty Map.empty None =
       Inl (JsError ''Please define the MONGODB_URI environment variable inside .env'')"
  using missing_uri_fails_at_startup [of Map.empty Map.empty None] by simp

section \<open>Trimming, awaiting the connection, and the steps of the write path\<close>

lemma trim_Nil: "trim [] = []"
  by (simp add: trim_def)

lemma trim_trim: "trim (trim s) = trim s"
proof -
  define ys where "ys = dropWhile isWhiteSpace s"
  define zs where "zs = rev (dropWhile isWhiteSpace (rev ys))"
  have pre: "ys = zs @ rev (takeWhile isWhiteSpace (rev ys))"
  proof -
    have "rev ys = takeWhile isWhiteSpace (rev ys) @ rev zs"
      by (simp add: zs_def)
    then have "rev (rev ys) = rev (takeWhile isWhiteSpace (rev ys) @ rev zs)"
      by (rule arg_cong)
    then show ?thesis by simp
  qed
  have front: "dropWhile isWhiteSpace zs = zs"
  proof (cases zs)
    case Nil
    then show ?thesis by simp
  next
    case (Cons z zs')
    from pre Cons obtain r where "ys = z # r" by (metis append_Cons)
    then have "ys \<noteq> []" and "hd ys = z" by simp_all
    moreover have "ys \<noteq> [] \<Longrightarrow> \<not> isWhiteSpace (hd ys)"
      unfolding ys_def by (rule hd_dropWhile)
    ultimately show ?thesis using Cons by simp
  qed
  have rear: "dropWhile isWhiteSpace (rev zs) = rev zs"
    by (simp add: zs_def)
  have "trim s = zs" by (simp add: trim_def ys_def zs_def)
  moreover have "trim zs = zs" by (simp add: trim_def front rear)
  ultimately show ?thesis by simp
qed

lemma title_rejected_iff: "title_rejected v = title_invalid v"
proof (cases v)
  case None
  then show ?thesis by (simp add: title_rejected_def title_invalid_def falsy_def)
next
  case (Some a)
  then show ?thesis
    by (cases a)
       (auto simp: title_rejected_def title_invalid_def falsy_def typeof_string_def
          call_trim_def trim_Nil)
qed

lemma await_collection: "collection (snd (await_connectToDatabase env s)) = collection s"
  by (auto simp: await_connectToDatabase_def connectToDatabase_def settle_def Let_def
      split: option.splits promise_state.splits sum.splits)

lemma await_io:
  "io (snd (await_connectToDatabase env s)) =
     (if uninitialized s then io s @ [OpConnect (MONGODB_URI s)] else io s)"
  by (auto simp: await_connectToDatabase_def connectToDatabase_def settle_def Let_def
      uninitialized_def awaited_def
      split: option.splits promise_state.splits sum.splits)

lemma await_cached:
  "conn s = Some c \<Longrightarrow>
     await_connectToDatabase env s =
       (Inr c, s\<lparr>console := console s @ [ConsoleLog ''Using existing database connection'']\<rparr>)"
  by (simp add: await_connectToDatabase_def connect_cached)

lemma await_consistent:
  "consistent s \<Longrightarrow>
     fst (await_connectToDatabase env s)
       = (case conn s of Some c \<Rightarrow> Inr c | None \<Rightarrow> connect_outcome env)"
  by (auto simp: consistent_def await_connectToDatabase_def connectToDatabase_def Let_def
      awaited_def split: option.splits)

lemma await_conn:
  "consistent s \<Longrightarrow> fst (await_connectToDatabase env s) = Inr c \<Longrightarrow>
     conn (snd (await_connectToDatabase env s)) = Some c"
  by (auto simp: consistent_def await_connectToDatabase_def connectToDatabase_def Let_def
      awaited_def settle_def split: option.splits)

lemma consistent_connect: "consistent s \<Longrightarrow> consistent (snd (connectToDatabase s))"
  by (auto simp: consistent_def connectToDatabase_def Let_def split: option.splits)

lemma consistent_settle: "consistent s \<Longrightarrow> consistent (settle p outcome s)"
  by (auto simp: consistent_def settle_def split: option.splits sum.splits)

lemma consistent_await: "consistent s \<Longrightarrow> consistent (snd (await_connectToDatabase env s))"
  by (auto simp: consistent_def await_connectToDatabase_def connectToDatabase_def Let_def
      awaited_def settle_def split: option.splits sum.splits)

lemma action_catch_fst: "fst (action_catch e s) = add_failed_response"
  by (simp add: action_catch_def add_failed_response_def)

lemma action_catch_snd:
  "snd (action_catch e s) = s\<lparr>console := console s @ [ConsoleError ''Failed to add task:'' e]\<rparr>"
  by (simp add: action_catch_def)

lemma save_new_Task:
  assumes "trim t \<noteq> []"
  shows "save env (new_Task env (Some (trim t)) (Some d)) s =
     (case insert_fault env of
        Some e \<Rightarrow>
          (Inl e,
           s\<lparr>io := io s @ [OpInsert \<lparr>doc_id = new_id env, title = trim t, description = trim d,
                                      createdAt = now env, rest = [(''__v'', JNum 0)]\<rparr>]\<rparr>)
      | None \<Rightarrow>
          (Inr (),
           s\<lparr>io := io s @ [OpInsert \<lparr>doc_id = new_id env, title = trim t, description = trim d,
                                      createdAt = now env, rest = [(''__v'', JNum 0)]\<rparr>],
             collection := collection s @ [\<lparr>doc_id = new_id env, title = trim t,
                                             description = trim d, createdAt = now env,
                                             rest = [(''__v'', JNum 0)]\<rparr>]\<rparr>))"
  using assms
  by (simp add: save_def new_Task_def validate_task_def trim_trim Let_def split: option.splits)

text \<open>The write path after the connection has been awaited, by the kind of input.\<close>

lemma action_connect_failed:
  "await_connectToDatabase env s = (Inl e, s1) \<Longrightarrow> action env req s = action_catch e s1"
  by (simp add: action_def)

lemma action_invalid_title:
  assumes "await_connectToDatabase env s = (Inr c, s1)" and "formData req = Inr fd"
    and "title_invalid (formData_get fd ''title'')"
  shows "action env req s = (validation_response, s1)"
  using assms by (simp add: action_def title_rejected_iff validation_response_def)

lemma action_file_description:
  assumes "await_connectToDatabase env s = (Inr c, s1)" and "formData req = Inr fd"
    and "\<not> title_invalid (formData_get fd ''title'')"
    and "formData_get fd ''description'' = Some (FFile f)"
  shows "action env req s = action_catch (TypeError ''trim is not a function'') s1"
  using assms
  by (auto simp: action_def title_rejected_iff title_invalid_def call_trim_def falsy_def
      split: option.splits form_value.splits)

lemma action_valid_input:
  assumes "await_connectToDatabase env s = (Inr c, s1)" and "formData req = Inr fd"
    and "valid_input fd"
  shows "action env req s =
     (case insert_fault env of
        Some e \<Rightarrow> action_catch e (s1\<lparr>io := io s1 @ [OpInsert (created_doc env fd)]\<rparr>)
      | None \<Rightarrow>
          (redirect ''/'',
           s1\<lparr>io := io s1 @ [OpInsert (created_doc env fd)],
              collection := collection s1 @ [created_doc env fd]\<rparr>))"
proof -
  from assms(3) obtain t where t: "formData_get fd ''title'' = Some (FString t)"
    and nonempty: "trim t \<noteq> []"
    by (auto simp: valid_input_def title_invalid_def split: option.splits form_value.splits)
  have valid: "\<not> title_rejected (formData_get fd ''title'')"
    using assms(3) by (simp add: title_rejected_iff valid_input_def)
  have d: "(if falsy (formData_get fd ''description'') then Inr []
            else call_trim (formData_get fd ''description''))
           = Inr (trimmed (formData_get fd ''description''))"
    using assms(3)
    by (auto simp: valid_input_def description_textual_def falsy_def call_trim_def trimmed_def
        trim_Nil split: option.splits form_value.splits)
  have doc: "\<lparr>doc_id = new_id env, title = trim t,
              description = trim (trimmed (formData_get fd ''description'')),
              createdAt = now env, rest = [(''__v'', JNum 0)]\<rparr> = created_doc env fd"
    by (auto simp: created_doc_def t trimmed_def trim_trim trim_Nil
        split: option.splits form_value.splits)
  show ?thesis
    using assms(1,2) valid
    by (simp add: action_def d t call_trim_def save_new_Task [OF nonempty] doc
        split: option.splits)
qed

section \<open>Properties of the write path\<close>

text \<open>
  C4, as the code has it. The action awaits the connection before it looks at the form.
  For an input whose title is missing, not textual, or empty after trimming: when the
  connection is acquired the response is the validation error
  \<open>{ errors: { title: "Title is required." } }\<close> with status 400, and when it is not
  the response is the failure message with status 500; either way the collection is
  unchanged and the only call to the driver is the connect of an uninitialised manager
  (no query, no insert).
\<close>

theorem invalid_title_no_write:
  assumes "formData req = Inr fd" and "title_invalid (formData_get fd ''title'')"
  shows "fst (action env req s) =
           (case fst (await_connectToDatabase env s) of
              Inr c \<Rightarrow>
                Json (JObj [(''errors'', JObj [(''title'', JStr (lit ''Title is required.''))])]) 400
            | Inl e \<Rightarrow>
                Json (JObj [(''message'', JStr (lit ''Failed to add task. Please try again.''))]) 500)
     \<and> collection (snd (action env req s)) = collection s
     \<and> io (snd (action env req s)) =
         (if uninitialized s then io s @ [OpConnect (MONGODB_URI s)] else io s)"
proof -
  obtain r s1 where a: "await_connectToDatabase env s = (r, s1)"
    by (cases "await_connectToDatabase env s")
  have c1: "collection s1 = collection s"
    using await_collection [of env s] by (simp add: a)
  have i1: "io s1 = (if uninitialized s then io s @ [OpConnect (MONGODB_URI s)] else io s)"
    using await_io [of env s] by (simp add: a)
  show ?thesis
  proof (cases r)
    case (Inl e)
    with a have "action env req s = action_catch e s1" by (simp add: action_connect_failed)
    then show ?thesis
      using a Inl c1 i1 by (simp add: action_catch_def)
  next
    case (Inr c)
    with a assms have "action env req s = (validation_response, s1)"
      by (simp add: action_invalid_title)
    then show ?thesis
      using a Inr c1 i1 by (simp add: validation_response_def)
  qed
qed

theorem invalid_title_no_write_witness:
  "formData blank_title = Inr [(''title'', FString (lit ''  ''))]
   \<and> title_invalid (formData_get [(''title'', FString (lit ''  ''))] ''title'')
   \<and> fst (action env_up blank_title world0) =
       Json (JObj [(''errors'', JObj [(''title'', JStr (lit ''Title is required.''))])]) 400
   \<and> collection (snd (action env_up blank_title world0)) = []
   \<and> io (snd (action env_up blank_title world0)) = [OpConnect (MONGODB_URI world0)]"
proof -
  have h1: "formData blank_title = Inr [(''title'', FString (lit ''  ''))]"
    by (simp add: blank_title_def)
  have h2: "title_invalid (formData_get [(''title'', FString (lit ''  ''))] ''title'')"
    by (simp add: title_invalid_def formData_get_def trim_def lit_def isWhiteSpace_def)
  have c: "consistent world0" by (simp add: consistent_def world0_def)
  have a: "fst (await_connectToDatabase env_up world0) = Inr (Connection 1)"
    by (simp add: await_consistent [OF c]) (simp add: world0_def env_up_def)
  have u: "uninitialized world0" by (simp add: uninitialized_def world0_def)
  have w: "collection world0 = []" "io world0 = []" by (simp_all add: world0_def)
  show ?thesis
    using h1 h2 invalid_title_no_write [OF h1 h2, of env_up world0]
    by (simp add: a u w)
qed

text \<open>
  C4, as the claim states it, fails: with the store unreachable a blank title is answered
  with the failure message and status 500, not with the validation error, and with the
  store reachable the connection attempt is made before the title is rejected.
\<close>

theorem invalid_title_counterexample:
  "formData blank_title = Inr [(''title'', FString (lit ''  ''))]
   \<and> title_invalid (formData_get [(''title'', FString (lit ''  ''))] ''title'')
   \<and> fst (action env_down blank_title world0) =
       Json (JObj [(''message'', JStr (lit ''Failed to add task. Please try again.''))]) 500
   \<and> fst (action env_down blank_title world0) \<noteq>
       Json (JObj [(''errors'', JObj [(''title'', JStr (lit ''Title is required.''))])]) 400
   \<and> io world0 = []
   \<and> io (snd (action env_up blank_title world0)) = [OpConnect (MONGODB_URI world0)]"
proof -
  have h1: "formData blank_title = Inr [(''title'', FString (lit ''  ''))]"
    by (simp add: blank_title_def)
  have h2: "title_invalid (formData_get [(''title'', FString (lit ''  ''))] ''title'')"
    by (simp add: title_invalid_def formData_get_def trim_def lit_def isWhiteSpace_def)
  have down: "await_connectToDatabase env_down world0 =
      (Inl (DriverError ''ECONNREFUSED''),
       settle 0 (Inl (DriverError ''ECONNREFUSED'')) (snd (connectToDatabase world0)))"
    by (simp add: await_connectToDatabase_def connectToDatabase_def awaited_def Let_def
        world0_def env_down_def)
  have up: "await_connectToDatabase env_up world0 =
      (Inr (Connection 1), settle 0 (Inr (Connection 1)) (snd (connectToDatabase world0)))"
    by (simp add: await_connectToDatabase_def connectToDatabase_def awaited_def Let_def
        world0_def env_up_def)
  have r500: "fst (action env_down blank_title world0) = add_failed_response"
    by (simp add: action_connect_failed [OF down] action_catch_fst)
  have s400: "action env_up blank_title world0 =
      (validation_response, settle 0 (Inr (Connection 1)) (snd (connectToDatabase world0)))"
    by (rule action_invalid_title [OF up h1 h2])
  have i: "io (settle 0 (Inr (Connection 1)) (snd (connectToDatabase world0)))
      = [OpConnect (MONGODB_URI world0)]"
    by (simp add: settle_def connectToDatabase_def Let_def world0_def)
  show ?thesis
    using h1 h2 r500 i
    by (simp add: s400 add_failed_response_def) (simp add: world0_def)
qed

text \<open>
  C8. For a valid input (a title that is not empty after trimming, a description that is
  absent or textual) the action answers \<open>{ message: "Failed to add task. Please try
  again." }\<close> with status 500 when the connection or the insert fails, and then nothing
  is added to the collection; otherwise it adds the one new document and redirects to
  \<open>/\<close>, the read path.
\<close>

theorem persist_outcome:
  assumes "formData req = Inr fd" and "valid_input fd"
  shows "fst (action env req s) =
           (if isl (fst (await_connectToDatabase env s)) \<or> insert_fault env \<noteq> None
            then Json (JObj [(''message'', JStr (lit ''Failed to add task. Please try again.''))]) 500
            else Redirect ''/'' 302)
     \<and> collection (snd (action env req s)) =
           (if isl (fst (await_connectToDatabase env s)) \<or> insert_fault env \<noteq> None
            then collection s
            else collection s @ [created_doc env fd])"
proof -
  obtain r s1 where a: "await_connectToDatabase env s = (r, s1)"
    by (cases "await_connectToDatabase env s")
  have c1: "collection s1 = collection s"
    using await_collection [of env s] by (simp add: a)
  show ?thesis
  proof (cases r)
    case (Inl e)
    with a have "action env req s = action_catch e s1" by (simp add: action_connect_failed)
    then show ?thesis
      using a Inl c1 by (simp add: action_catch_def)
  next
    case (Inr c)
    with a have a': "await_connectToDatabase env s = (Inr c, s1)" by simp
    show ?thesis
      using a' c1
      by (simp add: action_valid_input [OF a' assms] action_catch_def redirect_def
          split: option.splits)
  qed
qed

theorem persist_outcome_witness:
  "formData buy_milk = Inr [(''title'', FString (lit '' Buy milk '')), (''description'', FString [])]
   \<and> valid_input [(''title'', FString (lit '' Buy milk '')), (''description'', FString [])]
   \<and> fst (action env_down buy_milk world0) =
       Json (JObj [(''message'', JStr (lit ''Failed to add task. Please try again.''))]) 500
   \<and> collection (snd (action env_down buy_milk world0)) = []
   \<and> fst (action env_up buy_milk world0) = Redirect ''/'' 302
   \<and> collection (snd (action env_up buy_milk world0)) =
       [created_doc env_up
          [(''title'', FString (lit '' Buy milk '')), (''description'', FString [])]]"
proof -
  have h1: "formData buy_milk =
      Inr [(''title'', FString (lit '' Buy milk '')), (''description'', FString [])]"
    by (simp add: buy_milk_def)
  have h2: "valid_input [(''title'', FString (lit '' Buy milk '')), (''description'', FString [])]"
    by (simp add: valid_input_def title_invalid_def description_textual_def formData_get_def
        trim_def lit_def isWhiteSpace_def)
  have c: "consistent world0" by (simp add: consistent_def world0_def)
  have down: "isl (fst (await_connectToDatabase env_down world0))"
    by (simp add: await_consistent [OF c]) (simp add: world0_def env_down_def)
  have up: "\<not> isl (fst (await_connectToDatabase env_up world0))"
    by (simp add: await_consistent [OF c]) (simp add: world0_def env_up_def)
  have f: "insert_fault env_up = None" by (simp add: env_up_def)
  have w: "collection world0 = []" by (simp add: world0_def)
  show ?thesis
    using h1 h2 persist_outcome [OF h1 h2, of env_down world0]
      persist_outcome [OF h1 h2, of env_up world0]
    by (simp add: down up f w)
qed

text \<open>
  C10. When the title is valid and the description is a File, the action reports no
  validation error: the response is the failure message with status 500, nothing is
  added to the collection and no insert is attempted; and when the connection was
  acquired, what the \<open>catch\<close> block logs is the TypeError of calling \<open>trim\<close> on the
  File.
\<close>

theorem file_description_fails:
  assumes "formData req = Inr fd" and "\<not> title_invalid (formData_get fd ''title'')"
    and "formData_get fd ''description'' = Some (FFile f)"
  shows "fst (action env req s) =
           Json (JObj [(''message'', JStr (lit ''Failed to add task. Please try again.''))]) 500
     \<and> fst (action env req s) \<noteq>
           Json (JObj [(''errors'', JObj [(''title'', JStr (lit ''Title is required.''))])]) 400
     \<and> collection (snd (action env req s)) = collection s
     \<and> io (snd (action env req s)) =
         (if uninitialized s then io s @ [OpConnect (MONGODB_URI s)] else io s)
     \<and> (\<not> isl (fst (await_connectToDatabase env s)) \<longrightarrow>
          console (snd (action env req s)) =
            console (snd (await_connectToDatabase env s))
              @ [ConsoleError ''Failed to add task:'' (TypeError ''trim is not a function'')])"
proof -
  obtain r s1 where a: "await_connectToDatabase env s = (r, s1)"
    by (cases "await_connectToDatabase env s")
  have c1: "collection s1 = collection s"
    using await_collection [of env s] by (simp add: a)
  have i1: "io s1 = (if uninitialized s then io s @ [OpConnect (MONGODB_URI s)] else io s)"
    using await_io [of env s] by (simp add: a)
  show ?thesis
  proof (cases r)
    case (Inl e)
    with a have "action env req s = action_catch e s1" by (simp add: action_connect_failed)
    then show ?thesis
      using a Inl c1 i1 by (simp add: action_catch_def)
  next
    case (Inr c)
    with a assms have "action env req s = action_catch (TypeError ''trim is not a function'') s1"
      by (simp add: action_file_description)
    then show ?thesis
      using a Inr c1 i1 by (simp add: action_catch_def)
  qed
qed

theorem file_description_fails_witness:
  "formData with_upload =
     Inr [(''title'', FString (lit ''Report'')), (''description'', FFile (lit ''notes.txt''))]
   \<and> \<not> title_invalid (formData_get
         [(''title'', FString (lit ''Report'')), (''description'', FFile (lit ''notes.txt''))]
         ''title'')
   \<and> formData_get
         [(''title'', FString (lit ''Report'')), (''description'', FFile (lit ''notes.txt''))]
         ''description'' = Some (FFile (lit ''notes.txt''))
   \<and> fst (action env_up with_upload world0) =
       Json (JObj [(''message'', JStr (lit ''Failed to add task. Please try again.''))]) 500
   \<and> collection (snd (action env_up with_upload world0)) = []
   \<and> io (snd (action env_up with_upload world0)) = [OpConnect (MONGODB_URI world0)]"
proof -
  have h1: "formData with_upload =
     Inr [(''title'', FString (lit ''Report'')), (''description'', FFile (lit ''notes.txt''))]"
    by (simp add: with_upload_def)
  have h2: "\<not> title_invalid (formData_get
         [(''title'', FString (lit ''Report'')), (''description'', FFile (lit ''notes.txt''))]
         ''title'')"
    by (simp add: title_invalid_def formData_get_def trim_def lit_def isWhiteSpace_def)
  have h3: "formData_get
         [(''title'', FString (lit ''Report'')), (''description'', FFile (lit ''notes.txt''))]
         ''description'' = Some (FFile (lit ''notes.txt''))"
    by (simp add: formData_get_def)
  have u: "uninitialized world0" by (simp add: uninitialized_def world0_def)
  have w: "collection world0 = []" "io world0 = []" by (simp_all add: world0_def)
  show ?thesis
    using h1 h2 h3 file_description_fails [OF h1 h2 h3, of env_up world0]
    by (simp add: u w)
qed

section \<open>The steps of the read path\<close>

lemma toISOString_valid: "valid_time t \<Longrightarrow> \<exists>x. toISOString t = Inr x"
  by (simp add: toISOString_def valid_time_def Let_def split: prod.splits)

lemma toISOString_invalid:
  "\<not> valid_time t \<Longrightarrow> toISOString t = Inl (RangeError ''Invalid time value'')"
  by (simp add: toISOString_def valid_time_def)

lemma serializableTask_Inr:
  "serializableTask d = Inr j \<longleftrightarrow>
     (\<exists>iso_text. toISOString (createdAt d) = Inr iso_text
        \<and> j = JObj ([(''_id'', JStr (toString (doc_id d))), (''title'', JStr (title d)),
                     (''description'', JStr (description d)), (''createdAt'', JStr iso_text)]
                    @ rest d))"
  by (auto simp: serializableTask_def split: sum.splits)

lemma serializableTask_isl: "isl (serializableTask d) \<longleftrightarrow> \<not> valid_time (createdAt d)"
proof (cases "valid_time (createdAt d)")
  case True
  then obtain x where "toISOString (createdAt d) = Inr x"
    using toISOString_valid by blast
  with True show ?thesis by (simp add: serializableTask_def)
next
  case False
  then show ?thesis by (simp add: serializableTask_def toISOString_invalid)
qed

lemma map_throwing_Inr:
  "map_throwing f xs = Inr ys \<longleftrightarrow> list_all2 (\<lambda>x y. f x = Inr y) xs ys"
proof (induction xs arbitrary: ys)
  case Nil
  then show ?case by auto
next
  case (Cons x xs)
  show ?case
  proof (cases "f x")
    case (Inl e)
    then show ?thesis by (auto simp: list_all2_Cons1)
  next
    case (Inr y)
    have "map_throwing f (x # xs) = Inr ys
          \<longleftrightarrow> (\<exists>zs. map_throwing f xs = Inr zs \<and> ys = y # zs)"
      using Inr by (auto split: sum.splits)
    also have "\<dots> \<longleftrightarrow> (\<exists>zs. list_all2 (\<lambda>x y. f x = Inr y) xs zs \<and> ys = y # zs)"
      by (simp add: Cons.IH)
    also have "\<dots> \<longleftrightarrow> list_all2 (\<lambda>x y. f x = Inr y) (x # xs) ys"
      using Inr by (auto simp: list_all2_Cons1)
    finally show ?thesis .
  qed
qed

lemma map_throwing_isl: "isl (map_throwing f xs) \<longleftrightarrow> \<not> list_all (\<lambda>x. \<not> isl (f x)) xs"
  by (induction xs) (auto split: sum.splits)

lemma newest_first_sort_key: "newest_first (sort_key (\<lambda>d. - createdAt d) docs)"
proof -
  let ?ys = "sort_key (\<lambda>d. - createdAt d) docs"
  have "sorted (map (\<lambda>d. - createdAt d) ?ys)" by (rule sorted_sort_key)
  then have "sorted_wrt (\<lambda>a b. - createdAt a \<le> - createdAt b) ?ys"
    by (simp add: sorted_wrt_map)
  then show ?thesis by (simp add: newest_first_def)
qed

lemma find_sort_lean_fst:
  "fst (find_sort_lean env s) =
     (case find_fault env of
        Some e \<Rightarrow> Inl e
      | None \<Rightarrow> Inr (sort_key (\<lambda>d. - createdAt d) (collection s)))"
  by (simp add: find_sort_lean_def Let_def split: option.splits)

lemma loader_catch_fst: "fst (loader_catch e s) = Inl load_failed_response"
  by (simp add: loader_catch_def load_failed_response_def)

lemma loader_fst:
  "fst (loader env s) =
     (case fst (await_connectToDatabase env s) of
        Inl e \<Rightarrow> Inl load_failed_response
      | Inr c \<Rightarrow>
          (case find_fault env of
             Some e \<Rightarrow> Inl load_failed_response
           | None \<Rightarrow>
               (case map_throwing serializableTask
                       (sort_key (\<lambda>d. - createdAt d) (collection s)) of
                  Inl e \<Rightarrow> Inl load_failed_response
                | Inr ts \<Rightarrow> Inr (tasks_response ts))))"
proof -
  obtain r s1 where a: "await_connectToDatabase env s = (r, s1)"
    by (cases "await_connectToDatabase env s")
  have c1: "collection s1 = collection s"
    using await_collection [of env s] by (simp add: a)
  show ?thesis
    by (simp add: loader_def a find_sort_lean_def Let_def c1 loader_catch_fst
        tasks_response_def split: sum.splits option.splits)
qed

lemma loader_isl:
  "isl (fst (loader env s)) \<longleftrightarrow>
     isl (fst (await_connectToDatabase env s)) \<or> find_fault env \<noteq> None
     \<or> \<not> list_all (\<lambda>d. valid_time (createdAt d)) (collection s)"
proof -
  let ?docs = "sort_key (\<lambda>d. - createdAt d) (collection s)"
  have "list_all (\<lambda>d. \<not> isl (serializableTask d)) ?docs
        = list_all (\<lambda>d. valid_time (createdAt d)) (collection s)"
    by (simp add: list_all_iff serializableTask_isl)
  then have m: "isl (map_throwing serializableTask ?docs)
        \<longleftrightarrow> \<not> list_all (\<lambda>d. valid_time (createdAt d)) (collection s)"
    by (simp add: map_throwing_isl)
  show ?thesis
    using m by (auto simp: loader_fst split: sum.splits option.splits)
qed

lemma loader_Inr:
  assumes "fst (loader env s) = Inr resp"
  shows "\<exists>ts. resp = tasks_response ts
           \<and> list_all2 (\<lambda>d t. serializableTask d = Inr t)
                (sort_key (\<lambda>d. - createdAt d) (collection s)) ts"
  using assms
  by (auto simp: loader_fst map_throwing_Inr split: sum.splits option.splits)

lemma loader_Inl: "fst (loader env s) = Inl resp \<Longrightarrow> resp = load_failed_response"
  by (auto simp: loader_fst split: sum.splits option.splits)

lemma iso_a: "toISOString 1700000000000 = Inr (lit ''2023-11-14T22:13:20.000Z'')"
  by code_simp

lemma iso_b: "toISOString 1700000001000 = Inr (lit ''2023-11-14T22:13:21.000Z'')"
  by code_simp

lemma loader_world_two: "fst (loader env_up world_two) = Inr (tasks_response [record_b, record_a])"
proof -
  have a: "fst (await_connectToDatabase env_up world_two) = Inr (Connection 1)"
    by (simp add: await_cached world_two_def)
  have s: "sort_key (\<lambda>d. - createdAt d) (collection world_two) = [task_b, task_a]"
    by (simp add: world_two_def task_a_def task_b_def)
  have ra: "serializableTask task_a = Inr record_a"
    by (simp add: serializableTask_def task_a_def iso_a record_a_def)
  have rb: "serializableTask task_b = Inr record_b"
    by (simp add: serializableTask_def task_b_def iso_b record_b_def)
  have f: "find_fault env_up = None" by (simp add: env_up_def)
  show ?thesis
    by (simp add: loader_fst a f s ra rb)
qed

lemma length_digits: "length (digits w n) = w"
  by (induction w arbitrary: n) simp_all

lemma toISOString_length:
  "toISOString t = Inr x \<Longrightarrow> length x = 24 \<or> length x = 27"
  by (auto simp: toISOString_def Let_def length_digits lit_def split: if_splits prod.splits)

lemma created_doc_fields:
  "doc_id (created_doc env fd) = new_id env"
  "title (created_doc env fd) = trimmed (formData_get fd ''title'')"
  "description (created_doc env fd) = trimmed (formData_get fd ''description'')"
  "createdAt (created_doc env fd) = now env"
  "rest (created_doc env fd) = [(''__v'', JNum 0)]"
  by (simp_all add: created_doc_def)

lemma buy_milk_created:
  "created_doc env_up [(''title'', FString (lit '' Buy milk '')), (''description'', FString [])]
     = task_a"
  by (simp add: created_doc_def task_a_def env_up_def trimmed_def formData_get_def trim_def
      lit_def isWhiteSpace_def)

text \<open>The routes leave the cache as awaiting the connection left it.\<close>

lemma action_cache:
  "conn (snd (action env req s)) = conn (snd (await_connectToDatabase env s))
   \<and> promise (snd (action env req s)) = promise (snd (await_connectToDatabase env s))
   \<and> promises (snd (action env req s)) = promises (snd (await_connectToDatabase env s))"
  by (auto simp: action_def action_catch_def save_def Let_def
      split: prod.splits sum.splits option.splits)

lemma loader_cache:
  "conn (snd (loader env s)) = conn (snd (await_connectToDatabase env s))
   \<and> promise (snd (loader env s)) = promise (snd (await_connectToDatabase env s))
   \<and> promises (snd (loader env s)) = promises (snd (await_connectToDatabase env s))"
  by (auto simp: loader_def loader_catch_def find_sort_lean_def Let_def
      split: prod.splits sum.splits option.splits)

lemma consistent_action: "consistent s \<Longrightarrow> consistent (snd (action env req s))"
  using consistent_await [of s env] action_cache [of env req s]
  by (auto simp: consistent_def split: option.splits)

lemma consistent_loader: "consistent s \<Longrightarrow> consistent (snd (loader env s))"
  using consistent_await [of s env] loader_cache [of env s]
  by (auto simp: consistent_def split: option.splits)

section \<open>Properties of the read path\<close>

text \<open>
  C5. When the title is not empty after trimming and the description is absent or
  textual, and the connection, the insert and the following query succeed, the action
  redirects and the list that the read path then returns is made of the documents that
  were stored before and exactly one more, whose title is the trimmed title and whose
  description is the trimmed description, the empty string when there was none.
\<close>

theorem created_task_listed:
  assumes "formData req = Inr fd"
    and "formData_get fd ''title'' = Some (FString t)" and "trim t \<noteq> []"
    and "description_textual (formData_get fd ''description'')"
    and "consistent s" and "\<not> isl (fst (await_connectToDatabase env s))"
    and "insert_fault env = None" and "find_fault env' = None"
    and "valid_time (now env)"
    and "list_all (\<lambda>d. valid_time (createdAt d)) (collection s)"
  shows "\<exists>docs ts iso_text.
      fst (action env req s) = Redirect ''/'' 302
    \<and> fst (loader env' (snd (action env req s))) = Inr (Json (JObj [(''tasks'', JArr ts)]) 200)
    \<and> list_all2 (\<lambda>d j. serializableTask d = Inr j) docs ts
    \<and> mset docs = add_mset (created_doc env fd) (mset (collection s))
    \<and> serializableTask (created_doc env fd) =
        Inr (JObj [(''_id'', JStr (toString (new_id env))),
                   (''title'', JStr (trim t)),
                   (''description'', JStr (trimmed (formData_get fd ''description''))),
                   (''createdAt'', JStr iso_text),
                   (''__v'', JNum 0)])"
proof -
  let ?new = "created_doc env fd"
  have valid: "valid_input fd"
    using assms(2,3,4) by (simp add: valid_input_def title_invalid_def)
  obtain r s1 where a0: "await_connectToDatabase env s = (r, s1)"
    by (cases "await_connectToDatabase env s")
  with assms(6) obtain c where a: "await_connectToDatabase env s = (Inr c, s1)"
    by (cases r) simp_all
  have conn1: "conn s1 = Some c"
    using await_conn [OF assms(5), of env c] by (simp add: a)
  have coll1: "collection s1 = collection s"
    using await_collection [of env s] by (simp add: a)
  let ?s2 = "s1\<lparr>io := io s1 @ [OpInsert ?new], collection := collection s1 @ [?new]\<rparr>"
  have act: "action env req s = (redirect ''/'', ?s2)"
    by (simp add: action_valid_input [OF a assms(1) valid] assms(7))
  have conn2: "conn ?s2 = Some c" using conn1 by simp
  have coll2: "collection ?s2 = collection s @ [?new]" by (simp add: coll1)
  have "\<not> isl (fst (await_connectToDatabase env' ?s2))"
    by (simp add: await_cached [OF conn2])
  moreover have "list_all (\<lambda>d. valid_time (createdAt d)) (collection ?s2)"
    using assms(9,10) by (simp add: coll1 created_doc_fields)
  ultimately have "\<not> isl (fst (loader env' ?s2))"
    using assms(8) by (simp only: loader_isl) simp
  then obtain resp where resp: "fst (loader env' ?s2) = Inr resp"
    by (cases "fst (loader env' ?s2)") simp_all
  from loader_Inr [OF resp] obtain ts where
    ts: "resp = tasks_response ts"
      "list_all2 (\<lambda>d j. serializableTask d = Inr j)
         (sort_key (\<lambda>d. - createdAt d) (collection ?s2)) ts"
    by blast
  have m: "mset (sort_key (\<lambda>d. - createdAt d) (collection ?s2))
      = add_mset ?new (mset (collection s))"
    by (simp add: coll1)
  from toISOString_valid [OF assms(9)] obtain iso_text where
    iso: "toISOString (now env) = Inr iso_text" by blast
  have new: "serializableTask ?new =
        Inr (JObj [(''_id'', JStr (toString (new_id env))),
                   (''title'', JStr (trim t)),
                   (''description'', JStr (trimmed (formData_get fd ''description''))),
                   (''createdAt'', JStr iso_text),
                   (''__v'', JNum 0)])"
    by (simp add: serializableTask_def created_doc_fields iso assms(2) trimmed_def)
  have "fst (action env req s) = Redirect ''/'' 302"
    by (simp add: act redirect_def)
  moreover have "fst (loader env' (snd (action env req s)))
      = Inr (Json (JObj [(''tasks'', JArr ts)]) 200)"
    using resp ts(1) by (simp add: act tasks_response_def)
  ultimately show ?thesis
    using ts(2) m new by blast
qed

theorem created_task_listed_witness:
  "formData buy_milk = Inr [(''title'', FString (lit '' Buy milk '')), (''description'', FString [])]
   \<and> formData_get [(''title'', FString (lit '' Buy milk '')), (''description'', FString [])]
         ''title'' = Some (FString (lit '' Buy milk ''))
   \<and> trim (lit '' Buy milk '') \<noteq> []
   \<and> description_textual
         (formData_get [(''title'', FString (lit '' Buy milk '')), (''description'', FString [])]
            ''description'')
   \<and> consistent world0
   \<and> \<not> isl (fst (await_connectToDatabase env_up world0))
   \<and> insert_fault env_up = None
   \<and> find_fault env_later = None
   \<and> valid_time (now env_up)
   \<and> list_all (\<lambda>d. valid_time (createdAt d)) (collection world0)
   \<and> (\<exists>docs ts iso_text.
        fst (action env_up buy_milk world0) = Redirect ''/'' 302
      \<and> fst (loader env_later (snd (action env_up buy_milk world0)))
          = Inr (Json (JObj [(''tasks'', JArr ts)]) 200)
      \<and> list_all2 (\<lambda>d j. serializableTask d = Inr j) docs ts
      \<and> mset docs = add_mset task_a (mset (collection world0))
      \<and> serializableTask task_a =
          Inr (JObj [(''_id'', JStr (toString (new_id env_up))),
                     (''title'', JStr (trim (lit '' Buy milk ''))),
                     (''description'', JStr []),
                     (''createdAt'', JStr iso_text),
                     (''__v'', JNum 0)]))"
proof -
  let ?fd = "[(''title'', FString (lit '' Buy milk '')), (''description'', FString [])]"
  have h1: "formData buy_milk = Inr ?fd" by (simp add: buy_milk_def)
  have h2: "formData_get ?fd ''title'' = Some (FString (lit '' Buy milk ''))"
    by (simp add: formData_get_def)
  have h3: "trim (lit '' Buy milk '') \<noteq> []"
    by (simp add: trim_def lit_def isWhiteSpace_def)
  have h4: "description_textual (formData_get ?fd ''description'')"
    by (simp add: description_textual_def formData_get_def)
  have h5: "consistent world0" by (simp add: consistent_def world0_def)
  have h6: "\<not> isl (fst (await_connectToDatabase env_up world0))"
    by (simp add: await_consistent [OF h5]) (simp add: world0_def env_up_def)
  have h7: "insert_fault env_up = None" by (simp add: env_up_def)
  have h8: "find_fault env_later = None" by (simp add: env_later_def)
  have h9: "valid_time (now env_up)" by (simp add: valid_time_def env_up_def)
  have h10: "list_all (\<lambda>d. valid_time (createdAt d)) (collection world0)"
    by (simp add: world0_def)
  have d: "trimmed (formData_get ?fd ''description'') = []"
    by (simp add: trimmed_def formData_get_def trim_Nil)
  show ?thesis
    using h1 h2 h3 h4 h5 h6 h7 h8 h9 h10
      created_task_listed [OF h1 h2 h3 h4 h5 h6 h7 h8 h9 h10]
    unfolding buy_milk_created d by blast
qed

text \<open>
  C6. Whenever the read path returns, its list is made of all the documents of the
  collection, each of them once and none left out, in an order in which no record is
  older than one listed after it; and it does return when the connection is acquired,
  the query does not fail and the stored dates are dates.
\<close>

theorem list_newest_first:
  "(fst (loader env s) = Inr resp \<longrightarrow>
      (\<exists>docs ts. resp = Json (JObj [(''tasks'', JArr ts)]) 200
         \<and> mset docs = mset (collection s)
         \<and> newest_first docs
         \<and> list_all2 (\<lambda>d j. serializableTask d = Inr j) docs ts))
   \<and> (\<not> isl (fst (await_connectToDatabase env s)) \<and> find_fault env = None
        \<and> list_all (\<lambda>d. valid_time (createdAt d)) (collection s)
      \<longrightarrow> \<not> isl (fst (loader env s)))"
proof (intro conjI impI)
  assume r: "fst (loader env s) = Inr resp"
  from loader_Inr [OF r] obtain ts where
    ts: "resp = tasks_response ts"
      "list_all2 (\<lambda>d j. serializableTask d = Inr j)
         (sort_key (\<lambda>d. - createdAt d) (collection s)) ts"
    by blast
  have "mset (sort_key (\<lambda>d. - createdAt d) (collection s)) = mset (collection s)"
    by simp
  with ts newest_first_sort_key [of "collection s"]
  show "\<exists>docs ts. resp = Json (JObj [(''tasks'', JArr ts)]) 200
         \<and> mset docs = mset (collection s)
         \<and> newest_first docs
         \<and> list_all2 (\<lambda>d j. serializableTask d = Inr j) docs ts"
    unfolding tasks_response_def by blast
next
  assume "\<not> isl (fst (await_connectToDatabase env s)) \<and> find_fault env = None
        \<and> list_all (\<lambda>d. valid_time (createdAt d)) (collection s)"
  then show "\<not> isl (fst (loader env s))"
    by (simp only: loader_isl) simp
qed

theorem list_newest_first_witness:
  "fst (loader env_up world_two) = Inr (tasks_response [record_b, record_a])
   \<and> (\<exists>docs ts. tasks_response [record_b, record_a] = Json (JObj [(''tasks'', JArr ts)]) 200
         \<and> mset docs = mset (collection world_two)
         \<and> newest_first docs
         \<and> list_all2 (\<lambda>d j. serializableTask d = Inr j) docs ts)
   \<and> collection world_two = [task_a, task_b]
   \<and> createdAt task_a < createdAt task_b
   \<and> newest_first [task_b, task_a]
   \<and> \<not> isl (fst (await_connectToDatabase env_up world_two))
   \<and> find_fault env_up = None
   \<and> list_all (\<lambda>d. valid_time (createdAt d)) (collection world_two)
   \<and> \<not> isl (fst (loader env_up world_two))"
proof -
  have c: "collection world_two = [task_a, task_b]" by (simp add: world_two_def)
  have o: "createdAt task_a < createdAt task_b" by (simp add: task_a_def task_b_def)
  have n: "newest_first [task_b, task_a]"
    by (simp add: newest_first_def task_a_def task_b_def)
  have a: "\<not> isl (fst (await_connectToDatabase env_up world_two))"
    by (simp add: await_cached world_two_def)
  have f: "find_fault env_up = None" by (simp add: env_up_def)
  have v: "list_all (\<lambda>d. valid_time (createdAt d)) (collection world_two)"
    by (simp add: c) (simp add: task_a_def task_b_def valid_time_def)
  show ?thesis
    using loader_world_two c o n a f v
      list_newest_first [of env_up world_two "tasks_response [record_b, record_a]"]
    by blast
qed

text \<open>
  C7, as the code has it. A returned response is \<open>{ tasks: [...] }\<close> with status 200,
  one record for each document of the collection; a record has the fields of the
  document, \<open>_id\<close> as the text of the ObjectId, \<open>title\<close>, \<open>description\<close>, \<open>createdAt\<close>
  as the text that \<open>toISOString\<close> gives (24 or 27 characters, see
  \<open>toISOString_length\<close>), followed by every other stored field unchanged. A thrown
  response is \<open>{ message: "Failed to load tasks." }\<close> with status 500 and carries no
  list; it is thrown exactly when the connection is not acquired, the query fails, or a
  stored date is not a date.
\<close>

theorem loader_response:
  "(fst (loader env s) = Inr resp \<longrightarrow>
      (\<exists>docs ts. resp = Json (JObj [(''tasks'', JArr ts)]) 200
         \<and> mset docs = mset (collection s)
         \<and> list_all2
              (\<lambda>d j. \<exists>iso_text. toISOString (createdAt d) = Inr iso_text
                 \<and> j = JObj ([(''_id'', JStr (toString (doc_id d))),
                              (''title'', JStr (title d)),
                              (''description'', JStr (description d)),
                              (''createdAt'', JStr iso_text)] @ rest d))
              docs ts))
   \<and> (fst (loader env s) = Inl resp \<longrightarrow>
        resp = Json (JObj [(''message'', JStr (lit ''Failed to load tasks.''))]) 500)
   \<and> (isl (fst (loader env s)) \<longleftrightarrow>
        isl (fst (await_connectToDatabase env s)) \<or> find_fault env \<noteq> None
        \<or> \<not> list_all (\<lambda>d. valid_time (createdAt d)) (collection s))"
proof (intro conjI impI)
  assume r: "fst (loader env s) = Inr resp"
  from loader_Inr [OF r] obtain ts where
    ts: "resp = tasks_response ts"
      "list_all2 (\<lambda>d j. serializableTask d = Inr j)
         (sort_key (\<lambda>d. - createdAt d) (collection s)) ts"
    by blast
  have "mset (sort_key (\<lambda>d. - createdAt d) (collection s)) = mset (collection s)"
    by simp
  with ts
  show "\<exists>docs ts. resp = Json (JObj [(''tasks'', JArr ts)]) 200
         \<and> mset docs = mset (collection s)
         \<and> list_all2
              (\<lambda>d j. \<exists>iso_text. toISOString (createdAt d) = Inr iso_text
                 \<and> j = JObj ([(''_id'', JStr (toString (doc_id d))),
                              (''title'', JStr (title d)),
                              (''description'', JStr (description d)),
                              (''createdAt'', JStr iso_text)] @ rest d))
              docs ts"
    unfolding tasks_response_def serializableTask_Inr by blast
next
  assume "fst (loader env s) = Inl resp"
  then show "resp = Json (JObj [(''message'', JStr (lit ''Failed to load tasks.''))]) 500"
    using loader_Inl [of env s resp] by (simp add: load_failed_response_def)
next
  show "isl (fst (loader env s)) \<longleftrightarrow>
        isl (fst (await_connectToDatabase env s)) \<or> find_fault env \<noteq> None
        \<or> \<not> list_all (\<lambda>d. valid_time (createdAt d)) (collection s)"
    by (rule loader_isl)
qed

theorem loader_response_witness:
  "fst (loader env_up world_two) = Inr (tasks_response [record_b, record_a])
   \<and> (\<exists>docs ts. tasks_response [record_b, record_a] = Json (JObj [(''tasks'', JArr ts)]) 200
         \<and> mset docs = mset (collection world_two)
         \<and> list_all2
              (\<lambda>d j. \<exists>iso_text. toISOString (createdAt d) = Inr iso_text
                 \<and> j = JObj ([(''_id'', JStr (toString (doc_id d))),
                              (''title'', JStr (title d)),
                              (''description'', JStr (description d)),
                              (''createdAt'', JStr iso_text)] @ rest d))
              docs ts)
   \<and> fst (loader env_down world0) = Inl load_failed_response
   \<and> load_failed_response = Json (JObj [(''message'', JStr (lit ''Failed to load tasks.''))]) 500
   \<and> isl (fst (await_connectToDatabase env_down world0))"
proof -
  have c: "consistent world0" by (simp add: consistent_def world0_def)
  have a: "isl (fst (await_connectToDatabase env_down world0))"
    by (simp add: await_consistent [OF c]) (simp add: world0_def env_down_def)
  then have l: "fst (loader env_down world0) = Inl load_failed_response"
    by (cases "fst (await_connectToDatabase env_down world0)") (simp_all add: loader_fst)
  show ?thesis
    using loader_world_two l a
      loader_response [of env_up world_two "tasks_response [record_b, record_a]"]
      loader_response [of env_down world0 load_failed_response]
    by blast
qed

text \<open>
  C7, as the claim states it, fails: the records of the list carry the key \<open>_id\<close>, not
  \<open>id\<close>, and also the other stored fields of the document (here the version key).
\<close>

theorem loader_shape_counterexample:
  "fst (loader env_up world_two) = Inr (tasks_response [record_b, record_a])
   \<and> object_keys record_b = [''_id'', ''title'', ''description'', ''createdAt'', ''__v'']
   \<and> object_keys record_b \<noteq> [''id'', ''title'', ''description'', ''createdAt'']
   \<and> ''id'' \<notin> set (object_keys record_b)"
  using loader_world_two by (simp add: object_keys_def record_b_def)

end
